theory Spec2Isabelle
  imports Complex_Main "HOL-Library.Multiset" "HOL-Library.Sublist"
begin

section \<open>Data model of app.py\<close>

text \<open>
  A pandas Timestamp is a count of nanoseconds, modelled as an \<open>int\<close>; a data frame is the
  list of its rows in positional order. The columns of the frames hold proper timestamps
  (the resampled index and the model's frame carry no NaT); the only NaT of the script is
  the \<open>max()\<close> of an empty column, modelled as \<open>None\<close>. Row labels (the pandas index) are
  not part of a row: \<open>reset_index(drop=True)\<close> and \<open>concat\<close> only relabel or keep them.
\<close>

record stamped =
  ds :: int

record point = stamped +
  y :: real

record frow = stamped +
  yhat1 :: real

record crow = frow +
  Type :: string

definition hour_ns :: int where
  "hour_ns = 3600000000000"

text \<open>\<open>pd.Timedelta(days=d)\<close>, in nanoseconds.\<close>

definition Timedelta_days :: "int \<Rightarrow> int" where
  "Timedelta_days d = d * 24 * hour_ns"

text \<open>\<open>frame['ds'].max()\<close> and \<open>min()\<close>: NaT (\<open>None\<close>) on an empty column.\<close>

fun ds_max :: "'a stamped_scheme list \<Rightarrow> int option" where
  "ds_max [] = None"
| "ds_max (r # rs) = Some (fold (\<lambda>q m. max (ds q) m) rs (ds r))"

fun ds_min :: "'a stamped_scheme list \<Rightarrow> int option" where
  "ds_min [] = None"
| "ds_min (r # rs) = Some (fold (\<lambda>q m. min (ds q) m) rs (ds r))"

text \<open>Comparisons of a timestamp column with a scalar: every comparison with NaT is False.\<close>

fun ts_ge :: "int \<Rightarrow> int option \<Rightarrow> bool" where
  "ts_ge t None = False"
| "ts_ge t (Some c) = (t \<ge> c)"

fun ts_le :: "int \<Rightarrow> int option \<Rightarrow> bool" where
  "ts_le t None = False"
| "ts_le t (Some c) = (t \<le> c)"

fun ts_gt :: "int \<Rightarrow> int option \<Rightarrow> bool" where
  "ts_gt t None = False"
| "ts_gt t (Some c) = (t > c)"

section \<open>Select website and training period (lines 19--29)\<close>

definition websites :: "string list" where
  "websites = [''youtube.com'', ''instagram.com'', ''facebook.com'', ''amazon.com'',
               ''linkedin.com'', ''bitmesra.ac.in'']"

definition training_options :: "(string \<times> int) list" where
  "training_options = [(''Last 1 Day'', 1), (''Last 3 Days'', 3), (''Last 7 Days'', 7)]"

section \<open>Fetch Google Trends data (lines 32--40)\<close>

text \<open>
  The provider (\<open>TrendReq\<close>, \<open>build_payload\<close>, \<open>interest_over_time\<close>) is outside the
  program and is a parameter: \<open>provider keyword\<close> is the frame of lines 34--38, already
  renamed to the columns \<open>ds\<close> and \<open>y\<close>, or \<open>None\<close> when an exception leaves these lines
  (the provider call raises, or the frame lacks the expected columns). An exception
  propagates out of \<open>get_trend_data\<close>, which has no handler.
\<close>

text \<open>The label of the hourly bin of a timestamp: the timestamp floored to the hour.\<close>

definition floor_H :: "int \<Rightarrow> int" where
  "floor_H t = (t div hour_ns) * hour_ns"

text \<open>
  \<open>.mean()\<close> of one bin: NaN (\<open>None\<close>) for a bin without observations. The mean of a
  bin with observations is taken in the reals.
\<close>

definition bin_mean :: "point list \<Rightarrow> int \<Rightarrow> real option" where
  "bin_mean df b =
     (let ys = map y (filter (\<lambda>p. floor_H (ds p) = b) df)
      in if ys = [] then None else Some (sum_list ys / real (length ys)))"

definition fillna :: "real \<Rightarrow> real option \<Rightarrow> real" where
  "fillna v m = (case m of None \<Rightarrow> v | Some x \<Rightarrow> x)"

text \<open>
  \<open>df.set_index('ds').resample('H').mean().fillna(0).reset_index()\<close>: one row for every
  hourly bin from the bin of the earliest observation to the bin of the latest one; an
  empty frame stays empty.
\<close>

definition resample_H_mean_fillna :: "point list \<Rightarrow> point list" where
  "resample_H_mean_fillna df =
     (case (ds_min df, ds_max df) of
        (Some lo, Some hi) \<Rightarrow>
          map (\<lambda>k. \<lparr>ds = floor_H lo + int k * hour_ns,
                     y = fillna 0 (bin_mean df (floor_H lo + int k * hour_ns))\<rparr>)
              [0 ..< Suc (nat ((floor_H hi - floor_H lo) div hour_ns))]
      | _ \<Rightarrow> [])"

definition get_trend_data :: "(string \<rightharpoonup> point list) \<Rightarrow> string \<Rightarrow> point list option" where
  "get_trend_data provider keyword =
     (case provider keyword of
        None \<Rightarrow> None
      | Some df \<Rightarrow> Some (resample_H_mean_fillna df))"

text \<open>
  \<open>st.selectbox(label, options)\<close>: the user picks one of the options by position; with no
  options the widget returns \<open>None\<close>.
\<close>

definition selectbox :: "'a list \<Rightarrow> nat \<Rightarrow> 'a option" where
  "selectbox options i = (if i < length options then Some (options ! i) else None)"

section \<open>Filter training data (lines 50--51)\<close>

definition cutoff_date :: "point list \<Rightarrow> int \<Rightarrow> int option" where
  "cutoff_date data selected_days =
     (case ds_max data of None \<Rightarrow> None | Some m \<Rightarrow> Some (m - Timedelta_days selected_days))"

definition data_small :: "point list \<Rightarrow> int \<Rightarrow> point list" where
  "data_small data selected_days =
     filter (\<lambda>p. ts_ge (ds p) (cutoff_date data selected_days)) data"

section \<open>Separate past and future (lines 74--83)\<close>

text \<open>
  \<open>forecast\<close> is the frame returned by \<open>model.predict\<close>: rows with \<open>ds\<close>, \<open>yhat1\<close> and
  further columns (the record's extension). \<open>pd.to_datetime\<close> on the timestamp column
  leaves it as it is.
\<close>

definition past_forecast :: "'a frow_scheme list \<Rightarrow> int option \<Rightarrow> 'a frow_scheme list" where
  "past_forecast forecast actual_end = filter (\<lambda>r. ts_le (ds r) actual_end) forecast"

definition future_forecast :: "'a frow_scheme list \<Rightarrow> int option \<Rightarrow> 'a frow_scheme list" where
  "future_forecast forecast actual_end = filter (\<lambda>r. ts_gt (ds r) actual_end) forecast"

definition Past_Forecast :: string where
  "Past_Forecast = ''Past Forecast''"

definition Future_Forecast :: string where
  "Future_Forecast = ''Future Forecast''"

text \<open>\<open>frame[['ds', 'yhat1']].assign(Type=t)\<close> on one row.\<close>

definition assign_Type :: "string \<Rightarrow> 'a frow_scheme \<Rightarrow> crow" where
  "assign_Type t r = \<lparr>ds = ds r, yhat1 = yhat1 r, Type = t\<rparr>"

definition combined :: "'a frow_scheme list \<Rightarrow> int option \<Rightarrow> crow list" where
  "combined forecast actual_end =
     map (assign_Type Past_Forecast) (past_forecast forecast actual_end) @
     map (assign_Type Future_Forecast) (future_forecast forecast actual_end)"

text \<open>\<open>actual_end = data_small['ds'].max()\<close> (line 75), the second argument of the three functions above.\<close>

definition actual_end :: "point list \<Rightarrow> int option" where
  "actual_end small = ds_max small"

section \<open>Facts about timestamp columns\<close>

lemma fold_max_ds: "fold (\<lambda>q m. max (ds q) m) rs a = Max (insert a (ds ` set rs))"
proof (induction rs arbitrary: a)
  case Nil
  show ?case by simp
next
  case (Cons r rs)
  have "Max (insert (max (ds r) a) (ds ` set rs)) = Max (insert a (insert (ds r) (ds ` set rs)))"
    by (cases "set rs = {}") (simp_all add: max.commute max.left_commute max.assoc)
  with Cons show ?case by simp
qed

lemma fold_min_ds: "fold (\<lambda>q m. min (ds q) m) rs a = Min (insert a (ds ` set rs))"
proof (induction rs arbitrary: a)
  case Nil
  show ?case by simp
next
  case (Cons r rs)
  have "Min (insert (min (ds r) a) (ds ` set rs)) = Min (insert a (insert (ds r) (ds ` set rs)))"
    by (cases "set rs = {}") (simp_all add: min.commute min.left_commute min.assoc)
  with Cons show ?case by simp
qed

lemma ds_max_Max: "rs \<noteq> [] \<Longrightarrow> ds_max rs = Some (Max (ds ` set rs))"
  by (cases rs) (simp_all add: fold_max_ds)

lemma ds_min_Min: "rs \<noteq> [] \<Longrightarrow> ds_min rs = Some (Min (ds ` set rs))"
  by (cases rs) (simp_all add: fold_min_ds)

lemma ds_max_None [simp]: "ds_max rs = None \<longleftrightarrow> rs = []"
  by (cases rs) simp_all

lemma ds_min_None [simp]: "ds_min rs = None \<longleftrightarrow> rs = []"
  by (cases rs) simp_all

lemma ds_max_ge: "ds_max rs = Some m \<Longrightarrow> r \<in> set rs \<Longrightarrow> ds r \<le> m"
  by (cases "rs = []") (auto simp: ds_max_Max)

lemma ds_min_le: "ds_min rs = Some m \<Longrightarrow> r \<in> set rs \<Longrightarrow> m \<le> ds r"
  by (cases "rs = []") (auto simp: ds_min_Min)

lemma ds_max_mem: "ds_max rs = Some m \<Longrightarrow> \<exists>r\<in>set rs. ds r = m"
proof -
  assume a: "ds_max rs = Some m"
  then have ne: "rs \<noteq> []" by auto
  then have "Max (ds ` set rs) \<in> ds ` set rs" by (intro Max_in) auto
  with a ne show ?thesis by (auto simp: ds_max_Max)
qed

lemma ds_min_mem: "ds_min rs = Some m \<Longrightarrow> \<exists>r\<in>set rs. ds r = m"
proof -
  assume a: "ds_min rs = Some m"
  then have ne: "rs \<noteq> []" by auto
  then have "Min (ds ` set rs) \<in> ds ` set rs" by (intro Min_in) auto
  with a ne show ?thesis by (auto simp: ds_min_Min)
qed

lemma sorted_filter_ge_dropWhile:
  "sorted (map ds xs) \<Longrightarrow> filter (\<lambda>p. c \<le> ds p) xs = dropWhile (\<lambda>p. ds p < c) xs"
proof (induction xs)
  case Nil
  show ?case by simp
next
  case (Cons x xs)
  show ?case
  proof (cases "ds x < c")
    case True
    with Cons show ?thesis by simp
  next
    case False
    with Cons.prems have "\<forall>p\<in>set xs. c \<le> ds p" by auto
    then have "filter (\<lambda>p. c \<le> ds p) xs = xs" by simp
    with False show ?thesis by simp
  qed
qed

lemma sorted_filter_le_takeWhile:
  "sorted (map ds xs) \<Longrightarrow> filter (\<lambda>p. ds p \<le> e) xs = takeWhile (\<lambda>p. ds p \<le> e) xs"
proof (induction xs)
  case Nil
  show ?case by simp
next
  case (Cons x xs)
  show ?case
  proof (cases "ds x \<le> e")
    case True
    with Cons show ?thesis by simp
  next
    case False
    with Cons.prems have "\<forall>p\<in>set xs. \<not> ds p \<le> e" by auto
    then have "filter (\<lambda>p. ds p \<le> e) xs = []" by simp
    with False show ?thesis by simp
  qed
qed

lemma sorted_filter_gt_dropWhile:
  "sorted (map ds xs) \<Longrightarrow> filter (\<lambda>p. e < ds p) xs = dropWhile (\<lambda>p. ds p \<le> e) xs"
proof (induction xs)
  case Nil
  show ?case by simp
next
  case (Cons x xs)
  show ?case
  proof (cases "ds x \<le> e")
    case True
    with Cons show ?thesis by simp
  next
    case False
    with Cons.prems have "\<forall>p\<in>set xs. e < ds p" by auto
    then have "filter (\<lambda>p. e < ds p) xs = xs" by simp
    with False show ?thesis by simp
  qed
qed

section \<open>Properties of the fetched series\<close>

lemma hour_ns_pos: "0 < hour_ns"
  by (simp add: hour_ns_def)

lemma floor_H_mono: "a \<le> b \<Longrightarrow> floor_H a \<le> floor_H b"
  using hour_ns_pos by (simp add: floor_H_def zdiv_mono1)

lemma floor_H_diff_div:
  "(floor_H b - floor_H a) div hour_ns = b div hour_ns - a div hour_ns"
proof -
  have "floor_H b - floor_H a = (b div hour_ns - a div hour_ns) * hour_ns"
    by (simp add: floor_H_def algebra_simps)
  then show ?thesis using hour_ns_pos by simp
qed

lemma floor_H_idem [simp]: "floor_H (floor_H t) = floor_H t"
  using hour_ns_pos by (simp add: floor_H_def)

lemma ds_min_le_ds_max: "ds_min rs = Some lo \<Longrightarrow> ds_max rs = Some hi \<Longrightarrow> lo \<le> hi"
  using ds_min_mem ds_max_ge by fastforce

lemma resample_nonempty:
  assumes "ds_min raw = Some lo" and "ds_max raw = Some hi"
  shows "resample_H_mean_fillna raw =
     map (\<lambda>k. \<lparr>ds = floor_H lo + int k * hour_ns,
                y = fillna 0 (bin_mean raw (floor_H lo + int k * hour_ns))\<rparr>)
         [0 ..< Suc (nat (hi div hour_ns - lo div hour_ns))]"
  by (simp add: resample_H_mean_fillna_def assms floor_H_diff_div)

lemma bin_mean_no_observation:
  "\<forall>p \<in> set raw. floor_H (ds p) \<noteq> H \<Longrightarrow> bin_mean raw H = None"
proof -
  assume "\<forall>p \<in> set raw. floor_H (ds p) \<noteq> H"
  then have "filter (\<lambda>p. floor_H (ds p) = H) raw = []" by (simp add: filter_empty_conv)
  then show ?thesis by (simp add: bin_mean_def)
qed

text \<open>
  Claim C7. When the provider's series has no observation inside an hour \<open>H\<close> that lies
  between the hour of its earliest and the hour of its latest observation, the fetched
  series has the point at \<open>H\<close> with value 0, and every point of it at \<open>H\<close> has value 0.
\<close>

theorem gap_fill_zero:
  assumes "provider keyword = Some raw"
    and "ds_min raw = Some lo" and "ds_max raw = Some hi"
    and "floor_H H = H" and "floor_H lo \<le> H" and "H \<le> floor_H hi"
    and "\<forall>p \<in> set raw. floor_H (ds p) \<noteq> H"
  shows "\<exists>data. get_trend_data provider keyword = Some data
           \<and> \<lparr>ds = H, y = 0\<rparr> \<in> set data
           \<and> (\<forall>q \<in> set data. ds q = H \<longrightarrow> y q = 0)"
proof -
  let ?data = "resample_H_mean_fillna raw"
  let ?n = "nat (hi div hour_ns - lo div hour_ns)"
  let ?k = "nat (H div hour_ns - lo div hour_ns)"
  have g: "get_trend_data provider keyword = Some ?data"
    by (simp add: get_trend_data_def assms(1))
  have Hm: "H = (H div hour_ns) * hour_ns"
    using assms(4) by (simp add: floor_H_def)
  have "floor_H lo \<le> floor_H H" using assms(4,5) by simp
  then have lo_le: "lo div hour_ns \<le> H div hour_ns"
    using hour_ns_pos by (simp add: floor_H_def mult_le_cancel_right)
  have "floor_H H \<le> floor_H hi" using assms(4,6) by simp
  then have le_hi: "H div hour_ns \<le> hi div hour_ns"
    using hour_ns_pos by (simp add: floor_H_def mult_le_cancel_right)
  have k: "?k < Suc ?n" using lo_le le_hi by simp
  have "floor_H lo + int ?k * hour_ns = (H div hour_ns) * hour_ns"
    using lo_le by (simp add: floor_H_def algebra_simps)
  then have Hk: "floor_H lo + int ?k * hour_ns = H" using Hm by simp
  have none: "bin_mean raw H = None"
    using assms(7) by (rule bin_mean_no_observation)
  have "?k \<in> set [0 ..< Suc ?n]"
    using k by (simp only: set_upt atLeastLessThan_iff le0 simp_thms)
  then have "(\<lambda>k. \<lparr>ds = floor_H lo + int k * hour_ns,
         y = fillna 0 (bin_mean raw (floor_H lo + int k * hour_ns))\<rparr>) ?k \<in> set ?data"
    unfolding resample_nonempty [OF assms(2,3)] set_map by (rule imageI)
  then have mem: "\<lparr>ds = H, y = 0\<rparr> \<in> set ?data"
    by (simp only: Hk none) (simp add: fillna_def)
  have zero: "\<forall>q \<in> set ?data. ds q = H \<longrightarrow> y q = 0"
    unfolding resample_nonempty [OF assms(2,3)]
    by (auto simp: none fillna_def)
  from g mem zero show ?thesis by blast
qed

theorem gap_fill_zero_witness:
  "[''youtube.com'' \<mapsto> [\<lparr>ds = 0, y = 50\<rparr>, \<lparr>ds = 7200000000005, y = 60\<rparr>]] ''youtube.com''
      = Some [\<lparr>ds = 0, y = 50\<rparr>, \<lparr>ds = 7200000000005, y = 60\<rparr>]
   \<and> ds_min [\<lparr>ds = 0, y = 50\<rparr>, \<lparr>ds = 7200000000005, y = 60\<rparr>] = Some 0
   \<and> ds_max [\<lparr>ds = 0, y = 50\<rparr>, \<lparr>ds = 7200000000005, y = 60\<rparr>] = Some 7200000000005
   \<and> floor_H 3600000000000 = 3600000000000
   \<and> floor_H 0 \<le> 3600000000000
   \<and> 3600000000000 \<le> floor_H 7200000000005
   \<and> floor_H 0 \<noteq> 3600000000000
   \<and> floor_H 7200000000005 \<noteq> 3600000000000
   \<and> (\<exists>data. get_trend_data
          [''youtube.com'' \<mapsto> [\<lparr>ds = 0, y = 50\<rparr>, \<lparr>ds = 7200000000005, y = 60\<rparr>]] ''youtube.com''
          = Some data \<and> \<lparr>ds = 3600000000000, y = 0\<rparr> \<in> set data)"
proof -
  let ?raw = "[\<lparr>ds = 0, y = 50\<rparr>, \<lparr>ds = 7200000000005, y = 60\<rparr>] :: point list"
  let ?P = "[''youtube.com'' \<mapsto> ?raw]"
  have p: "?P ''youtube.com'' = Some ?raw" by simp
  have lo: "ds_min ?raw = Some 0" by simp
  have hi: "ds_max ?raw = Some 7200000000005" by simp
  have al: "floor_H 3600000000000 = 3600000000000" by (simp add: floor_H_def hour_ns_def)
  have a: "floor_H 0 \<le> 3600000000000" by (simp add: floor_H_def hour_ns_def)
  have b: "3600000000000 \<le> floor_H 7200000000005" by (simp add: floor_H_def hour_ns_def)
  have n0: "floor_H 0 \<noteq> 3600000000000" by (simp add: floor_H_def hour_ns_def)
  have n2: "floor_H 7200000000005 \<noteq> 3600000000000" by (simp add: floor_H_def hour_ns_def)
  have gap: "\<forall>p \<in> set ?raw. floor_H (ds p) \<noteq> 3600000000000" using n0 n2 by simp
  from gap_fill_zero [where provider = ?P and keyword = "''youtube.com''", OF p lo hi al a b gap]
  have "\<exists>data. get_trend_data ?P ''youtube.com'' = Some data
          \<and> \<lparr>ds = 3600000000000, y = 0\<rparr> \<in> set data"
    by blast
  with p lo hi al a b n0 n2 show ?thesis by blast
qed

text \<open>
  Claim C6, as amended. For every successfully fetched series with at least one raw
  observation, the output is the dense hourly grid from the hour of the earliest
  observation to the hour of the latest one: consecutive points are exactly one hour apart
  and no hour is missing. The number of points is the number of hours between these two
  plus one; it is \<open>7 * 24\<close> exactly when the provider's observations span \<open>7 * 24\<close> hourly
  bins, which the code leaves to the provider.
\<close>

theorem fetched_series_dense:
  assumes "provider keyword = Some raw"
    and "ds_min raw = Some lo" and "ds_max raw = Some hi"
  shows "\<exists>data. get_trend_data provider keyword = Some data
     \<and> length data = nat (hi div hour_ns - lo div hour_ns) + 1
     \<and> map ds data = map (\<lambda>k. floor_H lo + int k * hour_ns) [0 ..< length data]
     \<and> (\<forall>i. Suc i < length data \<longrightarrow> ds (data ! Suc i) - ds (data ! i) = hour_ns)
     \<and> ds (hd data) = floor_H lo \<and> ds (last data) = floor_H hi
     \<and> (length data = 7 * 24 \<longleftrightarrow> hi div hour_ns - lo div hour_ns = 167)"
proof -
  let ?data = "resample_H_mean_fillna raw"
  let ?n = "nat (hi div hour_ns - lo div hour_ns)"
  note r = resample_nonempty [OF assms(2,3)]
  have le: "lo div hour_ns \<le> hi div hour_ns"
    using ds_min_le_ds_max [OF assms(2,3)] hour_ns_pos by (simp add: zdiv_mono1)
  have g: "get_trend_data provider keyword = Some ?data"
    by (simp add: get_trend_data_def assms(1))
  have len: "length ?data = ?n + 1"
    by (simp add: r)
  have grid: "map ds ?data = map (\<lambda>k. floor_H lo + int k * hour_ns) [0 ..< length ?data]"
    unfolding len by (simp add: r o_def)
  have nth: "ds (?data ! i) = floor_H lo + int i * hour_ns" if "i < length ?data" for i
  proof -
    have "ds (?data ! i) = map ds ?data ! i" using that by simp
    also have "\<dots> = floor_H lo + int i * hour_ns"
      using that unfolding grid by (simp del: upt_Suc)
    finally show ?thesis .
  qed
  have step: "\<forall>i. Suc i < length ?data \<longrightarrow> ds (?data ! Suc i) - ds (?data ! i) = hour_ns"
    by (simp add: nth algebra_simps)
  have ne: "?data \<noteq> []" using len by auto
  have first: "ds (hd ?data) = floor_H lo"
    using nth [of 0] ne by (simp add: hd_conv_nth)
  have "ds (last ?data) = floor_H lo + int ?n * hour_ns"
    using nth [of ?n] ne len by (simp add: last_conv_nth)
  also have "\<dots> = floor_H hi"
    using le by (simp add: floor_H_def algebra_simps)
  finally have final: "ds (last ?data) = floor_H hi" .
  have week: "length ?data = 7 * 24 \<longleftrightarrow> hi div hour_ns - lo div hour_ns = 167"
    using le unfolding len by auto
  from g len grid step first final week show ?thesis by blast
qed

theorem fetched_series_dense_witness:
  "[''youtube.com'' \<mapsto> [\<lparr>ds = 0, y = 50\<rparr>, \<lparr>ds = 7200000000005, y = 60\<rparr>]] ''youtube.com''
      = Some [\<lparr>ds = 0, y = 50\<rparr>, \<lparr>ds = 7200000000005, y = 60\<rparr>]
   \<and> ds_min [\<lparr>ds = 0, y = 50\<rparr>, \<lparr>ds = 7200000000005, y = 60\<rparr>] = Some 0
   \<and> ds_max [\<lparr>ds = 0, y = 50\<rparr>, \<lparr>ds = 7200000000005, y = 60\<rparr>] = Some 7200000000005
   \<and> (\<exists>data. get_trend_data
          [''youtube.com'' \<mapsto> [\<lparr>ds = 0, y = 50\<rparr>, \<lparr>ds = 7200000000005, y = 60\<rparr>]] ''youtube.com''
          = Some data \<and> length data = 3 \<and> ds (last data) = 7200000000000)"
proof -
  let ?raw = "[\<lparr>ds = 0, y = 50\<rparr>, \<lparr>ds = 7200000000005, y = 60\<rparr>] :: point list"
  let ?P = "[''youtube.com'' \<mapsto> ?raw]"
  have p: "?P ''youtube.com'' = Some ?raw" by simp
  have lo: "ds_min ?raw = Some 0" by simp
  have hi: "ds_max ?raw = Some 7200000000005" by simp
  have n: "nat (7200000000005 div hour_ns - 0 div hour_ns) + 1 = 3" by (simp add: hour_ns_def)
  have f: "floor_H 7200000000005 = 7200000000000" by (simp add: floor_H_def hour_ns_def)
  from fetched_series_dense [where provider = ?P and keyword = "''youtube.com''", OF p lo hi]
  have "\<exists>data. get_trend_data ?P ''youtube.com'' = Some data
          \<and> length data = 3 \<and> ds (last data) = 7200000000000"
    unfolding n f by blast
  with p lo hi show ?thesis by blast
qed

text \<open>
  Claim C6 as stated fails: a provider series of two observations in consecutive hours is
  fetched as a series of two points, not \<open>7 * 24\<close>.
\<close>

theorem fetched_series_not_always_168:
  "get_trend_data [''youtube.com'' \<mapsto> [\<lparr>ds = 0, y = 50\<rparr>, \<lparr>ds = 3600000000000, y = 60\<rparr>]]
      ''youtube.com''
     = Some [\<lparr>ds = 0, y = 50\<rparr>, \<lparr>ds = 3600000000000, y = 60\<rparr>]
   \<and> length [\<lparr>ds = 0, y = 50\<rparr>, \<lparr>ds = 3600000000000, y = 60 :: real\<rparr>] \<noteq> 7 * 24"
  by (simp add: get_trend_data_def resample_H_mean_fillna_def bin_mean_def fillna_def
      floor_H_def hour_ns_def)

text \<open>
  Claim C8, as amended. \<open>get_trend_data\<close> has no allow-list check: for every keyword, in
  the list or not, it fails exactly when the provider's part fails and otherwise returns
  the resampled provider series. The allow-list is kept by the select box alone, whose
  choice is always one of \<open>websites\<close>.
\<close>

theorem fetch_without_allow_list_guard:
  "(get_trend_data provider keyword = None \<longleftrightarrow> provider keyword = None)
   \<and> (\<forall>df. provider keyword = Some df \<longrightarrow>
         get_trend_data provider keyword = Some (resample_H_mean_fillna df))
   \<and> (\<forall>i site. selectbox websites i = Some site \<longrightarrow> site \<in> set websites)"
  by (auto simp: get_trend_data_def selectbox_def split: option.splits if_splits)

theorem fetch_without_allow_list_guard_witness:
  "[''example.com'' \<mapsto> [\<lparr>ds = 0, y = 50\<rparr>]] ''example.com'' = Some [\<lparr>ds = 0, y = 50\<rparr>]
   \<and> get_trend_data [''example.com'' \<mapsto> [\<lparr>ds = 0, y = 50\<rparr>]] ''example.com''
       = Some (resample_H_mean_fillna [\<lparr>ds = 0, y = 50\<rparr>])
   \<and> selectbox websites 1 = Some ''instagram.com''
   \<and> ''instagram.com'' \<in> set websites"
proof -
  let ?P = "[''example.com'' \<mapsto> [\<lparr>ds = 0, y = 50\<rparr> :: point]]"
  note t = fetch_without_allow_list_guard [of ?P "''example.com''"]
  have p: "?P ''example.com'' = Some [\<lparr>ds = 0, y = 50\<rparr>]" by simp
  have s: "selectbox websites 1 = Some ''instagram.com''"
    by (simp add: selectbox_def websites_def)
  from t p have g: "get_trend_data ?P ''example.com'' = Some (resample_H_mean_fillna [\<lparr>ds = 0, y = 50\<rparr>])"
    by blast
  from t s have m: "''instagram.com'' \<in> set websites" by blast
  from p g s m show ?thesis by blast
qed

text \<open>
  Claim C8 as stated fails: for the keyword \<open>example.com\<close>, which is not in \<open>websites\<close>, and
  a provider that answers it, the fetch succeeds.
\<close>

theorem fetch_outside_allow_list_succeeds:
  "''example.com'' \<notin> set websites
   \<and> get_trend_data [''example.com'' \<mapsto> [\<lparr>ds = 0, y = 50\<rparr>]] ''example.com''
       = Some [\<lparr>ds = 0, y = 50\<rparr>]"
  by (simp add: websites_def get_trend_data_def resample_H_mean_fillna_def bin_mean_def
      fillna_def floor_H_def hour_ns_def)

text \<open>
  The fetched series is ordered by timestamp, with strictly increasing timestamps: the
  ordering that the properties of the window and of the partition ask of their input.
\<close>

lemma resample_strictly_increasing:
  "sorted_wrt (<) (map ds (resample_H_mean_fillna raw))"
proof (cases raw)
  case Nil
  then show ?thesis by (simp add: resample_H_mean_fillna_def)
next
  case (Cons p ps)
  then obtain lo hi where lo: "ds_min raw = Some lo" and hi: "ds_max raw = Some hi"
    by simp
  have "sorted_wrt (\<lambda>j k. floor_H lo + int j * hour_ns < floor_H lo + int k * hour_ns)
          [0 ..< Suc (nat (hi div hour_ns - lo div hour_ns))]"
    using hour_ns_pos
    by (intro sorted_wrt_mono_rel [OF _ sorted_wrt_upt]) simp
  then show ?thesis
    by (simp add: resample_nonempty [OF lo hi] sorted_wrt_map o_def del: upt_Suc)
qed

lemma get_trend_data_ordered:
  assumes "get_trend_data provider keyword = Some data"
  shows "sorted (map ds data)" and "distinct (map ds data)"
proof -
  from assms obtain raw where "data = resample_H_mean_fillna raw"
    by (auto simp: get_trend_data_def split: option.splits)
  then have "sorted_wrt (<) (map ds data)"
    by (simp add: resample_strictly_increasing)
  then show "sorted (map ds data)" and "distinct (map ds data)"
    by (simp_all add: strict_sorted_iff)
qed

section \<open>Properties of the training window\<close>

lemma cutoff_date_Max:
  "data \<noteq> [] \<Longrightarrow>
   cutoff_date data selected_days = Some (Max (ds ` set data) - selected_days * 24 * hour_ns)"
  by (simp add: cutoff_date_def ds_max_Max Timedelta_days_def)

lemma training_options_days: "snd ` set training_options = {1, 3, 7}"
  by (simp add: training_options_def)

text \<open>
  The window keeps the latest point of the series, so the window end of line 75 is the
  maximum timestamp of the series.
\<close>

lemma actual_end_data_small:
  assumes "data \<noteq> []" and "0 \<le> selected_days"
  shows "actual_end (data_small data selected_days) = ds_max data"
proof -
  obtain m where m: "ds_max data = Some m" using assms(1) by (cases data) simp_all
  obtain r where r: "r \<in> set data" "ds r = m" using ds_max_mem [OF m] by blast
  let ?w = "data_small data selected_days"
  have w: "?w = filter (\<lambda>p. m - Timedelta_days selected_days \<le> ds p) data"
    by (simp add: data_small_def cutoff_date_def m)
  have "0 \<le> Timedelta_days selected_days"
    using assms(2) hour_ns_pos by (simp add: Timedelta_days_def)
  with r have rw: "r \<in> set ?w" by (simp add: w)
  then have ne: "?w \<noteq> []" by auto
  have "Max (ds ` set ?w) = m"
  proof (rule Max_eqI)
    show "finite (ds ` set ?w)" by simp
    show "y \<le> m" if "y \<in> ds ` set ?w" for y
      using that ds_max_ge [OF m] by (auto simp: w)
    show "m \<in> ds ` set ?w" using rw r(2) by force
  qed
  then show ?thesis by (simp add: actual_end_def ds_max_Max [OF ne] m)
qed

text \<open>
  Claim C3. For every non-empty series and every number of days in \<open>{1, 3, 7}\<close>, the
  cutoff is the maximum timestamp of the series minus \<open>days * 24\<close> hours, and the window is
  exactly the points with a timestamp at or after the cutoff, in their order; so every
  point of the window has a timestamp at or after the cutoff, and for a series ordered by
  timestamp (as every series is) the window is a suffix of the series.
\<close>

theorem select_window:
  assumes "data \<noteq> []" and "selected_days \<in> {1, 3, 7}"
  shows "cutoff_date data selected_days
           = Some (Max (ds ` set data) - selected_days * 24 * hour_ns)
    \<and> data_small data selected_days
           = filter (\<lambda>p. ds p \<ge> Max (ds ` set data) - selected_days * 24 * hour_ns) data
    \<and> (\<forall>p \<in> set (data_small data selected_days).
           ds p \<ge> Max (ds ` set data) - selected_days * 24 * hour_ns)
    \<and> (sorted (map ds data) \<longrightarrow> suffix (data_small data selected_days) data)"
proof -
  let ?c = "Max (ds ` set data) - selected_days * 24 * hour_ns"
  have c: "cutoff_date data selected_days = Some ?c"
    using assms(1) by (rule cutoff_date_Max)
  have f: "data_small data selected_days = filter (\<lambda>p. ds p \<ge> ?c) data"
    by (simp add: data_small_def c)
  have m: "\<forall>p \<in> set (data_small data selected_days). ds p \<ge> ?c"
    by (simp add: f)
  have s: "suffix (data_small data selected_days) data" if "sorted (map ds data)"
  proof -
    have "data_small data selected_days = dropWhile (\<lambda>p. ds p < ?c) data"
      using that by (simp add: f sorted_filter_ge_dropWhile)
    then show ?thesis by (simp add: suffix_dropWhile)
  qed
  from c f m s show ?thesis by blast
qed

theorem select_window_witness:
  "[\<lparr>ds = 0, y = 4\<rparr>, \<lparr>ds = 30 * hour_ns, y = 5\<rparr>, \<lparr>ds = 40 * hour_ns, y = 6\<rparr>] \<noteq> []
   \<and> (1::int) \<in> {1, 3, 7}
   \<and> sorted (map ds [\<lparr>ds = 0, y = 4\<rparr>, \<lparr>ds = 30 * hour_ns, y = 5\<rparr>, \<lparr>ds = 40 * hour_ns, y = 6\<rparr>])
   \<and> cutoff_date [\<lparr>ds = 0, y = 4\<rparr>, \<lparr>ds = 30 * hour_ns, y = 5\<rparr>, \<lparr>ds = 40 * hour_ns, y = 6\<rparr>] 1
        = Some (16 * hour_ns)
   \<and> data_small [\<lparr>ds = 0, y = 4\<rparr>, \<lparr>ds = 30 * hour_ns, y = 5\<rparr>, \<lparr>ds = 40 * hour_ns, y = 6\<rparr>] 1
        = [\<lparr>ds = 30 * hour_ns, y = 5\<rparr>, \<lparr>ds = 40 * hour_ns, y = 6\<rparr>]
   \<and> suffix (data_small [\<lparr>ds = 0, y = 4\<rparr>, \<lparr>ds = 30 * hour_ns, y = 5\<rparr>, \<lparr>ds = 40 * hour_ns, y = 6\<rparr>] 1)
        [\<lparr>ds = 0, y = 4\<rparr>, \<lparr>ds = 30 * hour_ns, y = 5\<rparr>, \<lparr>ds = 40 * hour_ns, y = 6\<rparr>]"
proof -
  let ?d = "[\<lparr>ds = 0, y = 4\<rparr>, \<lparr>ds = 30 * hour_ns, y = 5\<rparr>, \<lparr>ds = 40 * hour_ns, y = 6\<rparr>]"
  have ne: "?d \<noteq> []" by simp
  have d: "(1::int) \<in> {1, 3, 7}" by simp
  have so: "sorted (map ds ?d)" by (simp add: hour_ns_def)
  have mx: "Max (ds ` set ?d) = 40 * hour_ns" by (simp add: hour_ns_def)
  note t = select_window [OF ne d]
  from t have suf: "suffix (data_small ?d 1) ?d" using so by blast
  from t have c: "cutoff_date ?d 1 = Some (16 * hour_ns)" by (simp only: mx) simp
  from t have f: "data_small ?d 1 = [\<lparr>ds = 30 * hour_ns, y = 5\<rparr>, \<lparr>ds = 40 * hour_ns, y = 6\<rparr>]"
    by (simp only: mx) (simp add: hour_ns_def)
  from ne d so c f suf show ?thesis by blast
qed

text \<open>
  Claim C5. When the history of the series is no longer than the requested days, so that
  the cutoff is not after the earliest timestamp, the window is the whole series,
  unchanged; the selection has no error case.
\<close>

theorem short_history_full_series:
  assumes "ds_max data = Some hi" and "ds_min data = Some lo"
    and "hi - lo \<le> Timedelta_days selected_days"
  shows "data_small data selected_days = data"
proof -
  have "hi - Timedelta_days selected_days \<le> ds p" if "p \<in> set data" for p
    using ds_min_le [OF assms(2) that] assms(3) by simp
  then show ?thesis
    by (simp add: data_small_def cutoff_date_def assms(1))
qed

theorem short_history_full_series_witness:
  "ds_max [\<lparr>ds = 0, y = 4\<rparr>, \<lparr>ds = 30 * hour_ns, y = 5\<rparr>, \<lparr>ds = 40 * hour_ns, y = 6\<rparr>]
      = Some (40 * hour_ns)
   \<and> ds_min [\<lparr>ds = 0, y = 4\<rparr>, \<lparr>ds = 30 * hour_ns, y = 5\<rparr>, \<lparr>ds = 40 * hour_ns, y = 6\<rparr>] = Some 0
   \<and> 40 * hour_ns - 0 \<le> Timedelta_days 3
   \<and> data_small [\<lparr>ds = 0, y = 4\<rparr>, \<lparr>ds = 30 * hour_ns, y = 5\<rparr>, \<lparr>ds = 40 * hour_ns, y = 6\<rparr>] 3
      = [\<lparr>ds = 0, y = 4\<rparr>, \<lparr>ds = 30 * hour_ns, y = 5\<rparr>, \<lparr>ds = 40 * hour_ns, y = 6\<rparr>]"
proof -
  let ?d = "[\<lparr>ds = 0, y = 4\<rparr>, \<lparr>ds = 30 * hour_ns, y = 5\<rparr>, \<lparr>ds = 40 * hour_ns, y = 6\<rparr>]"
  have a: "ds_max ?d = Some (40 * hour_ns)" by (simp add: hour_ns_def)
  have b: "ds_min ?d = Some 0" by (simp add: hour_ns_def)
  have c: "40 * hour_ns - 0 \<le> Timedelta_days 3" by (simp add: Timedelta_days_def hour_ns_def)
  from a b c short_history_full_series [OF a b c] show ?thesis by blast
qed

section \<open>Properties of the partition\<close>

lemma Past_neq_Future: "Past_Forecast \<noteq> Future_Forecast"
  by (simp add: Past_Forecast_def Future_Forecast_def)

lemma ds_assign_Type [simp]: "ds (assign_Type t r) = ds r"
  by (simp add: assign_Type_def)

lemma yhat1_assign_Type [simp]: "yhat1 (assign_Type t r) = yhat1 r"
  by (simp add: assign_Type_def)

lemma Type_assign_Type [simp]: "Type (assign_Type t r) = t"
  by (simp add: assign_Type_def)

lemma assign_Type_idem [simp]: "assign_Type t (assign_Type s r) = assign_Type t r"
  by (simp add: assign_Type_def)

lemma set_combined:
  "set (combined forecast (Some e)) =
     assign_Type Past_Forecast ` {r \<in> set forecast. ds r \<le> e} \<union>
     assign_Type Future_Forecast ` {r \<in> set forecast. e < ds r}"
  by (auto simp: combined_def past_forecast_def future_forecast_def)

text \<open>
  Claim C1. For every forecast and every window end instant \<open>e\<close>, the partition holds
  each row of the forecast exactly once, tagged \<open>Past Forecast\<close> when its timestamp is at
  most \<open>e\<close> and \<open>Future Forecast\<close> otherwise; hence a row of the output carries the tag
  Past if and only if its timestamp is at most \<open>e\<close>, and the tag Future if and only if
  it is not.
\<close>

theorem partition_tags:
  "mset (combined forecast (Some e)) =
     image_mset (\<lambda>r. assign_Type (if ds r \<le> e then Past_Forecast else Future_Forecast) r)
       (mset forecast)
   \<and> (\<forall>c \<in> set (combined forecast (Some e)).
        (Type c = Past_Forecast \<longleftrightarrow> ds c \<le> e) \<and> (Type c = Future_Forecast \<longleftrightarrow> \<not> ds c \<le> e))"
proof
  show "mset (combined forecast (Some e)) =
     image_mset (\<lambda>r. assign_Type (if ds r \<le> e then Past_Forecast else Future_Forecast) r)
       (mset forecast)"
    by (induction forecast) (simp_all add: combined_def past_forecast_def future_forecast_def)
  show "\<forall>c \<in> set (combined forecast (Some e)).
        (Type c = Past_Forecast \<longleftrightarrow> ds c \<le> e) \<and> (Type c = Future_Forecast \<longleftrightarrow> \<not> ds c \<le> e)"
    using Past_neq_Future by (auto simp: set_combined)
qed

theorem partition_tags_witness:
  "mset (combined [\<lparr>ds = 5, yhat1 = 2\<rparr>, \<lparr>ds = 1, yhat1 = 3\<rparr>] (Some 1)) =
     {# \<lparr>ds = 5, yhat1 = 2, Type = Future_Forecast\<rparr>, \<lparr>ds = 1, yhat1 = 3, Type = Past_Forecast\<rparr> #}
   \<and> \<lparr>ds = 1, yhat1 = 3, Type = Past_Forecast\<rparr>
        \<in> set (combined [\<lparr>ds = 5, yhat1 = 2\<rparr>, \<lparr>ds = 1, yhat1 = 3\<rparr>] (Some 1))
   \<and> \<lparr>ds = 5, yhat1 = 2, Type = Past_Forecast\<rparr>
        \<notin> set (combined [\<lparr>ds = 5, yhat1 = 2\<rparr>, \<lparr>ds = 1, yhat1 = 3\<rparr>] (Some 1))"
proof -
  note t = partition_tags [of "[\<lparr>ds = 5, yhat1 = 2\<rparr>, \<lparr>ds = 1, yhat1 = 3\<rparr>]" 1]
  from t have m: "mset (combined [\<lparr>ds = 5, yhat1 = 2\<rparr>, \<lparr>ds = 1, yhat1 = 3\<rparr>] (Some 1)) =
     {# \<lparr>ds = 5, yhat1 = 2, Type = Future_Forecast\<rparr>, \<lparr>ds = 1, yhat1 = 3, Type = Past_Forecast\<rparr> #}"
    by (simp add: assign_Type_def)
  have s: "set (combined [\<lparr>ds = 5, yhat1 = 2\<rparr>, \<lparr>ds = 1, yhat1 = 3\<rparr>] (Some 1)) =
     {\<lparr>ds = 5, yhat1 = 2, Type = Future_Forecast\<rparr>, \<lparr>ds = 1, yhat1 = 3, Type = Past_Forecast\<rparr>}"
    using arg_cong [OF m, of set_mset] by simp
  show ?thesis using m s Past_neq_Future by simp
qed


text \<open>
  Claim C2. For every forecast ordered by timestamp, the past rows are a prefix of the
  forecast and the future rows are the rest of it: the two runs are contiguous, do not
  overlap and together are the forecast, so the output is all Past rows followed by all
  Future rows, with the rows of the forecast in their order, none dropped and none
  duplicated. The two counts add up to the length of the forecast, and every Past timestamp
  is at most every Future timestamp.
\<close>

theorem partition_runs:
  assumes "sorted (map ds forecast)"
  shows "past_forecast forecast (Some e) @ future_forecast forecast (Some e) = forecast
    \<and> past_forecast forecast (Some e) = takeWhile (\<lambda>r. ds r \<le> e) forecast
    \<and> future_forecast forecast (Some e) = dropWhile (\<lambda>r. ds r \<le> e) forecast
    \<and> map Type (combined forecast (Some e)) =
        replicate (length (past_forecast forecast (Some e))) Past_Forecast @
        replicate (length (future_forecast forecast (Some e))) Future_Forecast
    \<and> map frow.truncate (combined forecast (Some e)) = map frow.truncate forecast
    \<and> length (past_forecast forecast (Some e)) + length (future_forecast forecast (Some e))
        = length forecast
    \<and> length (combined forecast (Some e)) = length forecast
    \<and> (\<forall>p \<in> set (past_forecast forecast (Some e)).
         \<forall>f \<in> set (future_forecast forecast (Some e)). ds p \<le> ds f)"
proof -
  have p: "past_forecast forecast (Some e) = takeWhile (\<lambda>r. ds r \<le> e) forecast"
    using assms by (simp add: past_forecast_def sorted_filter_le_takeWhile)
  have f: "future_forecast forecast (Some e) = dropWhile (\<lambda>r. ds r \<le> e) forecast"
    using assms by (simp add: future_forecast_def sorted_filter_gt_dropWhile)
  have pf: "past_forecast forecast (Some e) @ future_forecast forecast (Some e) = forecast"
    by (simp add: p f)
  have tr: "frow.truncate (assign_Type t r) = frow.truncate r" for t and r :: "'a frow_scheme"
    by (simp add: frow.truncate_def assign_Type_def)
  have tags: "map Type (combined forecast (Some e)) =
        replicate (length (past_forecast forecast (Some e))) Past_Forecast @
        replicate (length (future_forecast forecast (Some e))) Future_Forecast"
    by (simp add: combined_def map_replicate_const o_def)
  have "map frow.truncate (combined forecast (Some e)) =
      map frow.truncate (past_forecast forecast (Some e) @ future_forecast forecast (Some e))"
    by (simp add: combined_def o_def tr)
  then have rows: "map frow.truncate (combined forecast (Some e)) = map frow.truncate forecast"
    by (simp only: pf)
  have len: "length (past_forecast forecast (Some e)) + length (future_forecast forecast (Some e))
        = length forecast"
    using arg_cong [OF pf, of length] by simp
  have lenc: "length (combined forecast (Some e)) = length forecast"
    using len by (simp add: combined_def)
  have ord: "\<forall>p \<in> set (past_forecast forecast (Some e)).
         \<forall>f \<in> set (future_forecast forecast (Some e)). ds p \<le> ds f"
    by (auto simp: past_forecast_def future_forecast_def)
  from pf p f tags rows len lenc ord show ?thesis by blast
qed

theorem partition_runs_witness:
  "sorted (map ds [\<lparr>ds = 1, yhat1 = 2\<rparr>, \<lparr>ds = 2, yhat1 = 3\<rparr>, \<lparr>ds = 4, yhat1 = 1\<rparr>])
   \<and> past_forecast [\<lparr>ds = 1, yhat1 = 2\<rparr>, \<lparr>ds = 2, yhat1 = 3\<rparr>, \<lparr>ds = 4, yhat1 = 1\<rparr>] (Some 2)
       = [\<lparr>ds = 1, yhat1 = 2\<rparr>, \<lparr>ds = 2, yhat1 = 3\<rparr>]
   \<and> future_forecast [\<lparr>ds = 1, yhat1 = 2\<rparr>, \<lparr>ds = 2, yhat1 = 3\<rparr>, \<lparr>ds = 4, yhat1 = 1\<rparr>] (Some 2)
       = [\<lparr>ds = 4, yhat1 = 1\<rparr>]
   \<and> map Type (combined [\<lparr>ds = 1, yhat1 = 2\<rparr>, \<lparr>ds = 2, yhat1 = 3\<rparr>, \<lparr>ds = 4, yhat1 = 1\<rparr>] (Some 2))
       = [Past_Forecast, Past_Forecast, Future_Forecast]"
proof -
  have s: "sorted (map ds [\<lparr>ds = 1, yhat1 = 2\<rparr>, \<lparr>ds = 2, yhat1 = 3\<rparr>, \<lparr>ds = 4, yhat1 = 1\<rparr>])"
    by simp
  show ?thesis
    using s partition_runs [OF s, of 2]
    by (simp add: past_forecast_def future_forecast_def)
qed

text \<open>
  Claim C9. Partitioning an already partitioned forecast again with the same window end
  gives the same frame, and so the same tag on every row.
\<close>

theorem partition_idempotent:
  "combined (combined forecast e) e = combined forecast e
   \<and> map Type (combined (combined forecast e) e) = map Type (combined forecast e)"
proof -
  have 1: "filter (\<lambda>r. ts_le (ds r) e) (map (assign_Type t) (filter (\<lambda>r. ts_le (ds r) e) xs))
          = map (assign_Type t) (filter (\<lambda>r. ts_le (ds r) e) xs)" for t and xs :: "'a frow_scheme list"
    by (induction xs) simp_all
  have 2: "filter (\<lambda>r. ts_gt (ds r) e) (map (assign_Type t) (filter (\<lambda>r. ts_gt (ds r) e) xs))
          = map (assign_Type t) (filter (\<lambda>r. ts_gt (ds r) e) xs)" for t and xs :: "'a frow_scheme list"
    by (induction xs) simp_all
  have 3: "filter (\<lambda>r. ts_gt (ds r) e) (map (assign_Type t) (filter (\<lambda>r. ts_le (ds r) e) xs))
          = []" for t and xs :: "'a frow_scheme list"
    by (induction xs) (auto elim: ts_le.elims ts_gt.elims)
  have 4: "filter (\<lambda>r. ts_le (ds r) e) (map (assign_Type t) (filter (\<lambda>r. ts_gt (ds r) e) xs))
          = []" for t and xs :: "'a frow_scheme list"
    by (induction xs) (auto elim: ts_le.elims ts_gt.elims)
  have "combined (combined forecast e) e = combined forecast e"
    unfolding combined_def past_forecast_def future_forecast_def
    by (simp add: 1 2 3 4 o_def)
  then show ?thesis by simp
qed

text \<open>
  Claim C10. The partition changes neither the timestamp nor the predicted value of a row:
  without the \<open>Type\<close> column the output is the past rows followed by the future rows, each
  in its own order; for a window end instant these are the rows of the forecast, each once;
  and every row of the output has the timestamp and the value of a row of the forecast.
\<close>

theorem partition_frame:
  "map frow.truncate (combined forecast e) =
      map frow.truncate (past_forecast forecast e) @ map frow.truncate (future_forecast forecast e)
   \<and> mset (map frow.truncate (combined forecast (Some w))) = mset (map frow.truncate forecast)
   \<and> (\<forall>c \<in> set (combined forecast e). \<exists>r \<in> set forecast. ds c = ds r \<and> yhat1 c = yhat1 r)"
proof -
  have tr: "frow.truncate (assign_Type t r) = frow.truncate r" for t and r :: "'a frow_scheme"
    by (simp add: frow.truncate_def assign_Type_def)
  have a: "map frow.truncate (combined forecast x) =
      map frow.truncate (past_forecast forecast x) @ map frow.truncate (future_forecast forecast x)"
    for x
    by (simp add: combined_def o_def tr)
  have split: "mset (past_forecast forecast (Some w)) + mset (future_forecast forecast (Some w))
      = mset forecast"
    by (induction forecast) (simp_all add: past_forecast_def future_forecast_def)
  have "mset (map frow.truncate (combined forecast (Some w))) =
      image_mset frow.truncate
        (mset (past_forecast forecast (Some w)) + mset (future_forecast forecast (Some w)))"
    by (simp add: a)
  then have b: "mset (map frow.truncate (combined forecast (Some w))) = mset (map frow.truncate forecast)"
    by (simp only: split mset_map)
  have c: "\<forall>c \<in> set (combined forecast e). \<exists>r \<in> set forecast. ds c = ds r \<and> yhat1 c = yhat1 r"
    by (auto simp: combined_def past_forecast_def future_forecast_def)
  from a b c show ?thesis by blast
qed

theorem partition_frame_witness:
  "map frow.truncate (combined [\<lparr>ds = 5, yhat1 = 2\<rparr>, \<lparr>ds = 1, yhat1 = 3\<rparr>] (Some 1))
     = [\<lparr>ds = 1, yhat1 = 3\<rparr>, \<lparr>ds = 5, yhat1 = 2\<rparr>]
   \<and> mset (map frow.truncate (combined [\<lparr>ds = 5, yhat1 = 2\<rparr>, \<lparr>ds = 1, yhat1 = 3\<rparr>] (Some 1)))
     = {# \<lparr>ds = 5, yhat1 = 2\<rparr>, \<lparr>ds = 1, yhat1 = 3\<rparr> #}
   \<and> set (combined [\<lparr>ds = 5, yhat1 = 2\<rparr>, \<lparr>ds = 1, yhat1 = 3\<rparr>] (Some 1)) \<noteq> {}"
  using partition_frame [of "[\<lparr>ds = 5, yhat1 = 2\<rparr>, \<lparr>ds = 1, yhat1 = 3\<rparr>]" "Some 1" 1]
  by (auto simp add: past_forecast_def future_forecast_def frow.truncate_def)

end
